theory Spec2Isabelle
  imports Main
begin

section \<open>Strings\<close>

text \<open>
  A JavaScript string is a sequence of UTF-16 code units, and \<open>length\<close>, \<open>slice\<close>,
  \<open>trim\<close> and the regular expressions of the program all count code units. A string is
  therefore a list of code units, each a natural number; \<open>js\<close> turns a literal of the
  source into that list.
\<close>

type_synonym jsstring = "nat list"

definition js :: "string \<Rightarrow> jsstring" where
  "js s = map of_char s"

section \<open>Round state (state.js)\<close>

text \<open>
  The numbers of a state are JavaScript numbers, that is doubles. \<open>createState\<close> starts
  them at whole numbers and \<open>applyRoundResult\<close> only ever adds one, so a number of a state
  is a whole number that a double holds, written as a natural number. Adding one to it is
  the addition of doubles: exact below \<open>2^53\<close> = 9007199254740992; from there to \<open>2^54\<close>
  the doubles are the even numbers and the sum, half way between two of them, is rounded to
  the one with the even significand; from \<open>2^54\<close> on the sum is rounded back to the number
  itself. The field \<open>round\<close> of the source is \<open>round_num\<close>.
\<close>

definition plusOne :: "nat \<Rightarrow> nat" where
  "plusOne n =
     (if n < 9007199254740992 then n + 1
      else if n < 18014398509481984 then (if even (n div 2) then n else n + 2)
      else n)"

record RoundState =
  round_num :: nat
  userScore :: nat
  botScore :: nat
  bombUsed :: bool

text \<open>
  The result of one judged round. \<open>null\<close> is \<open>None\<close>; the enumerated fields hold the
  strings themselves, as in the source, so that membership in the closed sets is a
  property to prove and not a typing fact.
\<close>

record Intent =
  status :: jsstring
  move :: "jsstring option"
  reason :: jsstring

record JudgeResult =
  intent :: Intent
  round_winner :: "jsstring option"
  response :: jsstring

definition TOTAL_ROUNDS :: nat where
  "TOTAL_ROUNDS = 3"

definition createState :: RoundState where
  "createState = \<lparr>round_num = 1, userScore = 0, botScore = 0, bombUsed = False\<rparr>"

definition applyRoundResult :: "RoundState \<Rightarrow> JudgeResult \<Rightarrow> RoundState" where
  "applyRoundResult state result =
     (let next0 = \<lparr>round_num = plusOne (round_num state), userScore = userScore state,
                    botScore = botScore state, bombUsed = bombUsed state\<rparr>;
          next1 = (if round_winner result = Some (js ''user'')
                   then next0\<lparr>userScore := plusOne (userScore next0)\<rparr> else next0);
          next2 = (if round_winner result = Some (js ''bot'')
                   then next1\<lparr>botScore := plusOne (botScore next1)\<rparr> else next1);
          next3 = (if move (intent result) = Some (js ''bomb'')
                   then next2\<lparr>bombUsed := True\<rparr> else next2)
      in next3)"

definition isGameOver :: "RoundState \<Rightarrow> bool" where
  "isGameOver state = (round_num state > TOTAL_ROUNDS)"

definition getFinalResult :: "RoundState \<Rightarrow> jsstring" where
  "getFinalResult state =
     (if userScore state > botScore state then js ''User wins''
      else if botScore state > userScore state then js ''Bot wins''
      else js ''Draw'')"

section \<open>Builtin string operations\<close>

text \<open>
  \<open>String.prototype.trim\<close> and the class \<open>\s\<close> of a regular expression use the same
  set: the code units of WhiteSpace and LineTerminator of the language.
\<close>

definition isWhiteSpace :: "nat \<Rightarrow> bool" where
  "isWhiteSpace c =
     (c = 9 \<or> c = 10 \<or> c = 11 \<or> c = 12 \<or> c = 13 \<or> c = 32 \<or> c = 160 \<or> c = 5760
      \<or> (8192 \<le> c \<and> c \<le> 8202) \<or> c = 8232 \<or> c = 8233 \<or> c = 8239 \<or> c = 8287
      \<or> c = 12288 \<or> c = 65279)"

definition trim :: "jsstring \<Rightarrow> jsstring" where
  "trim s = rev (dropWhile isWhiteSpace (rev (dropWhile isWhiteSpace s)))"

text \<open>\<open>s.slice(0, n)\<close> for a non-negative \<open>n\<close>.\<close>

definition slice0 :: "nat \<Rightarrow> jsstring \<Rightarrow> jsstring" where
  "slice0 n s = take n s"

text \<open>
  Matching under the flag \<open>i\<close> (without \<open>u\<close>) compares canonicalised code units; a code
  unit outside ASCII is never canonicalised to an ASCII one, so against the ASCII
  patterns of this program only the two cases of an ASCII letter match each other.
\<close>

definition asciiLower :: "nat \<Rightarrow> nat" where
  "asciiLower c = (if 65 \<le> c \<and> c \<le> 90 then c + 32 else c)"

fun ciPrefix :: "jsstring \<Rightarrow> jsstring \<Rightarrow> bool" where
  "ciPrefix [] s = True"
| "ciPrefix (p # ps) [] = False"
| "ciPrefix (p # ps) (c # cs) = (asciiLower p = asciiLower c \<and> ciPrefix ps cs)"

text \<open>\<open>/pat/i.test(s)\<close> for a pattern that is a plain string: some suffix of \<open>s\<close> starts with it.\<close>

fun ciContains :: "jsstring \<Rightarrow> jsstring \<Rightarrow> bool" where
  "ciContains pat [] = (pat = [])"
| "ciContains pat (c # cs) = (ciPrefix pat (c # cs) \<or> ciContains pat cs)"

definition isDigit :: "nat \<Rightarrow> bool" where
  "isDigit c = (48 \<le> c \<and> c \<le> 57)"

section \<open>JSON values and \<open>JSON.parse\<close>\<close>

text \<open>
  The values \<open>JSON.parse\<close> can return, and \<open>undefined\<close>, which reading a missing property
  gives. A number keeps its literal: the program never computes with one, it can only
  turn it into a string. An object keeps its members in the order of the text, with
  duplicates; reading a property takes the last one, as the builtin overwrites.
\<close>

datatype jsval =
    JUndefined
  | JNull
  | JBool bool
  | JNum jsstring
  | JStr jsstring
  | JArr "jsval list"
  | JObj "(jsstring \<times> jsval) list"

datatype jserror = SyntaxError | TypeError

text \<open>
  \<open>JSON.parse\<close> is a builtin; it is modelled by a pushdown recogniser of the JSON grammar
  of the language standard that reads the text one code unit at a time. The stack holds
  the arrays and objects under construction.
\<close>

datatype frame =
    FArr "jsval list"
  | FObj "(jsstring \<times> jsval) list"
  | FKey "(jsstring \<times> jsval) list" jsstring

datatype numst = NMinus | NZero | NInt | NDot | NFrac | NE | NESign | NExp

datatype strst = SPlain | SEsc | SUni nat nat

datatype mode =
    MValue
  | MArrStart
  | MObjStart
  | MKey
  | MColon
  | MAfter
  | MDone jsval
  | MStr bool strst jsstring
  | MLit jsstring jsval
  | MNum numst jsstring

type_synonym pstate = "mode \<times> frame list"

definition isJsonWs :: "nat \<Rightarrow> bool" where
  "isJsonWs c = (c = 9 \<or> c = 10 \<or> c = 13 \<or> c = 32)"

fun finish :: "jsval \<Rightarrow> frame list \<Rightarrow> pstate option" where
  "finish v [] = Some (MDone v, [])"
| "finish v (FArr vs # st) = Some (MAfter, FArr (vs @ [v]) # st)"
| "finish v (FKey kvs k # st) = Some (MAfter, FObj (kvs @ [(k, v)]) # st)"
| "finish v (FObj kvs # st) = None"

definition startValue :: "nat \<Rightarrow> frame list \<Rightarrow> pstate option" where
  "startValue c st =
     (if c = 34 then Some (MStr False SPlain [], st)
      else if c = 91 then Some (MArrStart, FArr [] # st)
      else if c = 123 then Some (MObjStart, FObj [] # st)
      else if c = 116 then Some (MLit (js ''rue'') (JBool True), st)
      else if c = 102 then Some (MLit (js ''alse'') (JBool False), st)
      else if c = 110 then Some (MLit (js ''ull'') JNull, st)
      else if c = 45 then Some (MNum NMinus [c], st)
      else if c = 48 then Some (MNum NZero [c], st)
      else if 49 \<le> c \<and> c \<le> 57 then Some (MNum NInt [c], st)
      else None)"

fun stepAfter :: "pstate \<Rightarrow> nat \<Rightarrow> pstate option" where
  "stepAfter (MDone v, st) c = (if isJsonWs c then Some (MDone v, st) else None)"
| "stepAfter (MAfter, FArr vs # st) c =
     (if isJsonWs c then Some (MAfter, FArr vs # st)
      else if c = 44 then Some (MValue, FArr vs # st)
      else if c = 93 then finish (JArr vs) st
      else None)"
| "stepAfter (MAfter, FObj kvs # st) c =
     (if isJsonWs c then Some (MAfter, FObj kvs # st)
      else if c = 44 then Some (MKey, FObj kvs # st)
      else if c = 125 then finish (JObj kvs) st
      else None)"
| "stepAfter _ c = None"

definition isExpMark :: "nat \<Rightarrow> bool" where
  "isExpMark c = (c = 101 \<or> c = 69)"

fun numStep :: "numst \<Rightarrow> nat \<Rightarrow> numst option" where
  "numStep NMinus c = (if c = 48 then Some NZero else if 49 \<le> c \<and> c \<le> 57 then Some NInt else None)"
| "numStep NZero c = (if c = 46 then Some NDot else if isExpMark c then Some NE else None)"
| "numStep NInt c =
     (if isDigit c then Some NInt else if c = 46 then Some NDot
      else if isExpMark c then Some NE else None)"
| "numStep NDot c = (if isDigit c then Some NFrac else None)"
| "numStep NFrac c = (if isDigit c then Some NFrac else if isExpMark c then Some NE else None)"
| "numStep NE c = (if c = 43 \<or> c = 45 then Some NESign else if isDigit c then Some NExp else None)"
| "numStep NESign c = (if isDigit c then Some NExp else None)"
| "numStep NExp c = (if isDigit c then Some NExp else None)"

fun numFinal :: "numst \<Rightarrow> bool" where
  "numFinal NZero = True"
| "numFinal NInt = True"
| "numFinal NFrac = True"
| "numFinal NExp = True"
| "numFinal _ = False"

definition hexVal :: "nat \<Rightarrow> nat option" where
  "hexVal c =
     (if 48 \<le> c \<and> c \<le> 57 then Some (c - 48)
      else if 97 \<le> c \<and> c \<le> 102 then Some (c - 87)
      else if 65 \<le> c \<and> c \<le> 70 then Some (c - 55)
      else None)"

definition escapeVal :: "nat \<Rightarrow> nat option" where
  "escapeVal c =
     (if c = 34 then Some 34 else if c = 92 then Some 92 else if c = 47 then Some 47
      else if c = 98 then Some 8 else if c = 102 then Some 12 else if c = 110 then Some 10
      else if c = 114 then Some 13 else if c = 116 then Some 9 else None)"

fun step :: "pstate \<Rightarrow> nat \<Rightarrow> pstate option" where
  "step (MValue, st) c = (if isJsonWs c then Some (MValue, st) else startValue c st)"
| "step (MArrStart, st) c =
     (if isJsonWs c then Some (MArrStart, st)
      else if c = 93 then (case st of FArr vs # st' \<Rightarrow> finish (JArr vs) st' | _ \<Rightarrow> None)
      else startValue c st)"
| "step (MObjStart, st) c =
     (if isJsonWs c then Some (MObjStart, st)
      else if c = 34 then Some (MStr True SPlain [], st)
      else if c = 125 then (case st of FObj kvs # st' \<Rightarrow> finish (JObj kvs) st' | _ \<Rightarrow> None)
      else None)"
| "step (MKey, st) c =
     (if isJsonWs c then Some (MKey, st)
      else if c = 34 then Some (MStr True SPlain [], st)
      else None)"
| "step (MColon, st) c =
     (if isJsonWs c then Some (MColon, st)
      else if c = 58 then Some (MValue, st)
      else None)"
| "step (MAfter, st) c = stepAfter (MAfter, st) c"
| "step (MDone v, st) c = stepAfter (MDone v, st) c"
| "step (MStr k SPlain acc, st) c =
     (if c = 34 then
        (if k then (case st of FObj kvs # st' \<Rightarrow> Some (MColon, FKey kvs acc # st') | _ \<Rightarrow> None)
         else finish (JStr acc) st)
      else if c = 92 then Some (MStr k SEsc acc, st)
      else if c < 32 then None
      else Some (MStr k SPlain (acc @ [c]), st))"
| "step (MStr k SEsc acc, st) c =
     (if c = 117 then Some (MStr k (SUni 0 0) acc, st)
      else (case escapeVal c of
              Some x \<Rightarrow> Some (MStr k SPlain (acc @ [x]), st)
            | None \<Rightarrow> None))"
| "step (MStr k (SUni n v) acc, st) c =
     (case hexVal c of
        None \<Rightarrow> None
      | Some d \<Rightarrow>
          (if n = 3 then Some (MStr k SPlain (acc @ [v * 16 + d]), st)
           else Some (MStr k (SUni (n + 1) (v * 16 + d)) acc, st)))"
| "step (MLit [] v, st) c = None"
| "step (MLit (r # rs) v, st) c =
     (if c = r then (if rs = [] then finish v st else Some (MLit rs v, st)) else None)"
| "step (MNum ns txt, st) c =
     (case numStep ns c of
        Some ns' \<Rightarrow> Some (MNum ns' (txt @ [c]), st)
      | None \<Rightarrow>
          (if numFinal ns then
             (case finish (JNum txt) st of Some p \<Rightarrow> stepAfter p c | None \<Rightarrow> None)
           else None))"

fun run :: "pstate \<Rightarrow> jsstring \<Rightarrow> pstate option" where
  "run p [] = Some p"
| "run p (c # cs) = (case step p c of None \<Rightarrow> None | Some p' \<Rightarrow> run p' cs)"

text \<open>\<open>None\<close> is the SyntaxError that \<open>JSON.parse\<close> throws.\<close>

definition JSON_parse :: "jsstring \<Rightarrow> jsval option" where
  "JSON_parse s =
     (case run (MValue, []) s of
        Some (MDone v, []) \<Rightarrow> Some v
      | Some (MNum ns txt, []) \<Rightarrow> (if numFinal ns then Some (JNum txt) else None)
      | _ \<Rightarrow> None)"

section \<open>Reading a parsed value\<close>

text \<open>
  \<open>v.name\<close> for the names the parser reads (\<open>intent\<close>, \<open>status\<close>, \<open>move\<close>, \<open>reason\<close>,
  \<open>round_winner\<close>, \<open>response\<close>): none of them is a property of a builtin prototype, so
  only an object of the text can have one. Reading a property of \<open>null\<close> or \<open>undefined\<close>
  throws a TypeError.
\<close>

fun getProp :: "jsval \<Rightarrow> jsstring \<Rightarrow> jserror + jsval" where
  "getProp JUndefined k = Inl TypeError"
| "getProp JNull k = Inl TypeError"
| "getProp (JObj kvs) k = Inr (case map_of (rev kvs) k of Some v \<Rightarrow> v | None \<Rightarrow> JUndefined)"
| "getProp v k = Inr JUndefined"

text \<open>
  \<open>v && typeof v === 'object'\<close>: \<open>typeof\<close> is \<open>'object'\<close> for \<open>null\<close>, arrays and objects, and
  of these only \<open>null\<close> is falsy.
\<close>

fun truthyObject :: "jsval \<Rightarrow> bool" where
  "truthyObject (JArr vs) = True"
| "truthyObject (JObj kvs) = True"
| "truthyObject v = False"

text \<open>\<open>list.includes(v) ? v : null\<close> for a list of strings: only an equal string is included.\<close>

fun includesOrNull :: "jsstring list \<Rightarrow> jsval \<Rightarrow> jsstring option" where
  "includesOrNull allowed (JStr s) = (if s \<in> set allowed then Some s else None)"
| "includesOrNull allowed v = None"

fun isNullish :: "jsval \<Rightarrow> bool" where
  "isNullish JUndefined = True"
| "isNullish JNull = True"
| "isNullish v = False"

fun sequenceSum :: "('e + 'a) list \<Rightarrow> 'e + 'a list" where
  "sequenceSum [] = Inr []"
| "sequenceSum (Inl e # xs) = Inl e"
| "sequenceSum (Inr x # xs) = (case sequenceSum xs of Inl e \<Rightarrow> Inl e | Inr ys \<Rightarrow> Inr (x # ys))"

fun joinWith :: "jsstring \<Rightarrow> jsstring list \<Rightarrow> jsstring" where
  "joinWith sep [] = []"
| "joinWith sep [x] = x"
| "joinWith sep (x # y # ys) = x @ sep @ joinWith sep (y # ys)"

text \<open>
  \<open>String(v)\<close>. A number goes through the floating-point conversion of the language,
  which is the parameter \<open>numToString\<close>, from the literal of the number to its text. An
  array is joined with commas, \<open>null\<close> elements giving the empty string. An object of the
  text inherits \<open>toString\<close> and is \<open>[object Object]\<close>, unless it has a member \<open>toString\<close>
  of its own: that is not callable, \<open>valueOf\<close> returns the object, and the conversion
  throws a TypeError.
\<close>

fun ToString :: "(jsstring \<Rightarrow> jsstring) \<Rightarrow> jsval \<Rightarrow> jserror + jsstring" where
  "ToString numToString JUndefined = Inr (js ''undefined'')"
| "ToString numToString JNull = Inr (js ''null'')"
| "ToString numToString (JBool b) = Inr (if b then js ''true'' else js ''false'')"
| "ToString numToString (JNum txt) = Inr (numToString txt)"
| "ToString numToString (JStr s) = Inr s"
| "ToString numToString (JArr vs) =
     (case sequenceSum (map (\<lambda>v. if isNullish v then Inr [] else ToString numToString v) vs) of
        Inl e \<Rightarrow> Inl e
      | Inr parts \<Rightarrow> Inr (joinWith (js '','') parts))"
| "ToString numToString (JObj kvs) =
     (if js ''toString'' \<in> fst ` set kvs then Inl TypeError else Inr (js ''[object Object]''))"

section \<open>The result parser (ai-judge.js)\<close>

text \<open>
  The regular expression \<open>^```(?:json)?\s*([\s\S]*?)```$\<close> on a string: it matches exactly
  when the string starts and ends with three backquotes that do not overlap; the group is
  what lies between them, after an optional \<open>json\<close> and the white space that follows.
\<close>

definition codeBlock :: "jsstring \<Rightarrow> jsstring option" where
  "codeBlock s =
     (if 6 \<le> length s \<and> take 3 s = [96, 96, 96] \<and> drop (length s - 3) s = [96, 96, 96] then
        (let body = take (length s - 6) (drop 3 s);
             rest = (if take 4 body = js ''json'' then drop 4 body else body)
         in Some (dropWhile isWhiteSpace rest))
      else None)"

definition stripFence :: "jsstring \<Rightarrow> jsstring" where
  "stripFence text =
     (let jsonStr = trim text
      in case codeBlock jsonStr of Some m1 \<Rightarrow> trim m1 | None \<Rightarrow> jsonStr)"

text \<open>
  \<open>typeof v === 'string' ? v : String(v ?? '')\<close>, and \<open>String(v ?? '')\<close> alone, which agrees
  with it on a string.
\<close>

definition stringOrEmpty :: "(jsstring \<Rightarrow> jsstring) \<Rightarrow> jsval \<Rightarrow> jserror + jsstring" where
  "stringOrEmpty numToString v = (if isNullish v then Inr [] else ToString numToString v)"

definition parseIntent :: "(jsstring \<Rightarrow> jsstring) \<Rightarrow> jsval \<Rightarrow> jserror + Intent" where
  "parseIntent numToString i =
     (if truthyObject i then
        (case getProp i (js ''status'') of Inl e \<Rightarrow> Inl e | Inr st \<Rightarrow>
        (case getProp i (js ''move'') of Inl e \<Rightarrow> Inl e | Inr mv \<Rightarrow>
        (case getProp i (js ''reason'') of Inl e \<Rightarrow> Inl e | Inr rs \<Rightarrow>
        (case stringOrEmpty numToString rs of Inl e \<Rightarrow> Inl e
         | Inr rtext \<Rightarrow>
             Inr \<lparr>status = (case includesOrNull [js ''VALID'', js ''INVALID'', js ''UNCLEAR''] st of
                              Some x \<Rightarrow> x | None \<Rightarrow> js ''UNCLEAR''),
                  move = includesOrNull [js ''rock'', js ''paper'', js ''scissors'', js ''bomb''] mv,
                  reason = rtext\<rparr>))))
      else Inr \<lparr>status = js ''UNCLEAR'', move = None, reason = js ''Missing intent.''\<rparr>)"

text \<open>The body of the \<open>try\<close>: \<open>Inl\<close> is an exception thrown inside it.\<close>

definition parseBody :: "(jsstring \<Rightarrow> jsstring) \<Rightarrow> jsstring \<Rightarrow> jserror + JudgeResult" where
  "parseBody numToString jsonStr =
     (case JSON_parse jsonStr of None \<Rightarrow> Inl SyntaxError | Some obj \<Rightarrow>
     (case getProp obj (js ''intent'') of Inl e \<Rightarrow> Inl e | Inr i \<Rightarrow>
     (case parseIntent numToString i of Inl e \<Rightarrow> Inl e | Inr intent' \<Rightarrow>
     (case getProp obj (js ''round_winner'') of Inl e \<Rightarrow> Inl e | Inr w \<Rightarrow>
     (case getProp obj (js ''response'') of Inl e \<Rightarrow> Inl e | Inr rv \<Rightarrow>
     (case stringOrEmpty numToString rv of Inl e \<Rightarrow> Inl e
      | Inr resp \<Rightarrow>
          Inr \<lparr>intent = intent',
               round_winner = includesOrNull [js ''user'', js ''bot'', js ''draw''] w,
               response = resp\<rparr>))))))"

definition notJsonResult :: "jsstring \<Rightarrow> JudgeResult" where
  "notJsonResult text =
     \<lparr>intent = \<lparr>status = js ''UNCLEAR'', move = None,
                 reason = js ''Response was not valid JSON.''\<rparr>,
      round_winner = None,
      response = slice0 500 text\<rparr>"

definition parseStructuredOutput :: "(jsstring \<Rightarrow> jsstring) \<Rightarrow> jsstring \<Rightarrow> JudgeResult" where
  "parseStructuredOutput numToString text =
     (case parseBody numToString (stripFence text) of
        Inr r \<Rightarrow> r
      | Inl e \<Rightarrow> notJsonResult text)"

section \<open>Provider errors (ai-judge.js)\<close>

text \<open>
  What a provider call throws is known to the program only through its \<open>message\<close>, which
  may be missing. \<open>(err && err.message) || ''\<close> reads it; \<open>lastErr\<close> is \<open>undefined\<close>
  (\<open>None\<close>) until the first failure.
\<close>

datatype thrown = Thrown "jsstring option"

fun errMessage :: "thrown option \<Rightarrow> jsstring" where
  "errMessage None = []"
| "errMessage (Some (Thrown None)) = []"
| "errMessage (Some (Thrown (Some m))) = m"

definition MAX_RETRIES :: nat where
  "MAX_RETRIES = 2"

text \<open>
  A delay is a JavaScript number. The program only gets one from the constant below or from
  \<open>Math.ceil\<close> of a product of non-negative doubles, so it is a whole number that a double
  holds or, when the digits in the message are very many, \<open>Infinity\<close>.
\<close>

datatype jsnum = Whole nat | Infinity

definition DEFAULT_RETRY_MS :: jsnum where
  "DEFAULT_RETRY_MS = Whole 10000"

text \<open>The pattern \<open>/429|quota|Too Many Requests|rate limit/i\<close>.\<close>

definition quotaPattern :: "jsstring \<Rightarrow> bool" where
  "quotaPattern msg =
     (ciContains (js ''429'') msg \<or> ciContains (js ''quota'') msg
      \<or> ciContains (js ''Too Many Requests'') msg \<or> ciContains (js ''rate limit'') msg)"

definition isQuotaError :: "thrown option \<Rightarrow> bool" where
  "isQuotaError err = quotaPattern (errMessage err)"

text \<open>
  The pattern \<open>/retry in (\d+(?:\.\d+)?)\s*s/i\<close> at the start of a string, giving the
  group. Every quantifier is greedy and none can give back a code unit that the rest of
  the pattern accepts, so the greedy reading decides the match.
\<close>

definition retryAt :: "jsstring \<Rightarrow> jsstring option" where
  "retryAt s =
     (if ciPrefix (js ''retry in '') s then
        (let r = drop 9 s;
             ds = takeWhile isDigit r;
             r1 = dropWhile isDigit r;
             fs = (case r1 of [] \<Rightarrow> [] | c # r1' \<Rightarrow> if c = 46 then takeWhile isDigit r1' else []);
             num = (if fs = [] then ds else ds @ [46] @ fs);
             r2 = (if fs = [] then r1 else drop (length fs + 1) r1);
             r3 = dropWhile isWhiteSpace r2
         in if ds = [] then None
            else (case r3 of [] \<Rightarrow> None
                  | c # r4 \<Rightarrow> if asciiLower c = 115 then Some num else None))
      else None)"

text \<open>\<open>msg.match(...)\<close>: the leftmost position where the pattern matches.\<close>

fun retryMatch :: "jsstring \<Rightarrow> jsstring option" where
  "retryMatch [] = None"
| "retryMatch (c # cs) =
     (case retryAt (c # cs) of Some d \<Rightarrow> Some d | None \<Rightarrow> retryMatch cs)"

text \<open>
  \<open>Math.ceil(parseFloat(m[1]) * 1000)\<close> is floating-point arithmetic on the matched
  digits; it is the parameter \<open>ceilMs\<close>, from the matched text to the delay.
\<close>

definition parseRetryDelayMs :: "(jsstring \<Rightarrow> jsnum) \<Rightarrow> thrown option \<Rightarrow> jsnum" where
  "parseRetryDelayMs ceilMs err =
     (case retryMatch (errMessage err) of
        Some d \<Rightarrow> ceilMs d
      | None \<Rightarrow> DEFAULT_RETRY_MS)"

text \<open>
  \<open>${Math.ceil(delay / 1000)}\<close> in the template of the rate-limit message divides doubles,
  rounds up and prints the number as the language prints a double (all digits of a whole
  number below \<open>10^21\<close>, an exponent from there on, \<open>Infinity\<close>). It is the parameter
  \<open>secText\<close>, from the delay to the text of the seconds.

  For examples there is an instance of each parameter. On digits without a fraction, and
  far below \<open>2^53\<close>, the product with 1000 is exact; and for a delay far below \<open>2^53\<close> the
  division and the rounding up are exact and the result prints as its decimal digits.
\<close>

definition wholeSecondsMs :: "jsstring \<Rightarrow> jsnum" where
  "wholeSecondsMs d = Whole (1000 * foldl (\<lambda>n c. 10 * n + (c - 48)) 0 d)"

function showNat :: "nat \<Rightarrow> jsstring" where
  "showNat n = (if n < 10 then [48 + n] else showNat (n div 10) @ [48 + n mod 10])"
  by pat_completeness auto
termination
  by (relation "measure id") auto

declare showNat.simps [simp del]

fun wholeSecondsText :: "jsnum \<Rightarrow> jsstring" where
  "wholeSecondsText (Whole n) = showNat ((n + 999) div 1000)"
| "wholeSecondsText Infinity = js ''Infinity''"

datatype provider = Claude | Gemini

text \<open>The one-character string U+2026 that marks a cut message.\<close>

definition ellipsis :: jsstring where
  "ellipsis = [8230]"

text \<open>The patterns \<open>/404|not found/i\<close> and \<open>/401|403|API key|invalid api key/i\<close>.\<close>

definition notFoundPattern :: "jsstring \<Rightarrow> bool" where
  "notFoundPattern msg = (ciContains (js ''404'') msg \<or> ciContains (js ''not found'') msg)"

definition authPattern :: "jsstring \<Rightarrow> bool" where
  "authPattern msg =
     (ciContains (js ''401'') msg \<or> ciContains (js ''403'') msg
      \<or> ciContains (js ''API key'') msg \<or> ciContains (js ''invalid api key'') msg)"

definition shortError ::
  "(jsstring \<Rightarrow> jsnum) \<Rightarrow> (jsnum \<Rightarrow> jsstring) \<Rightarrow> thrown option \<Rightarrow> provider \<Rightarrow> jsstring" where
  "shortError ceilMs secText err prov =
     (let msg = errMessage err in
      if quotaPattern msg then
        (let sec = secText (parseRetryDelayMs ceilMs err)
         in js ''Rate limit exceeded. Wait ~'' @ sec @ js ''s and try again.'')
      else if notFoundPattern msg then
        (if prov = Gemini
         then js ''Model not found. Try setting GEMINI_MODEL (e.g. gemini-2.0-flash).''
         else js ''Model not found. Try setting ANTHROPIC_MODEL (e.g. claude-3-5-haiku-latest).'')
      else if authPattern msg then
        js ''Invalid or missing API key. Set GEMINI_API_KEY or ANTHROPIC_API_KEY.''
      else if length msg > 120 then slice0 120 msg @ ellipsis else msg)"

section \<open>The judge client (ai-judge.js)\<close>

record Options =
  apiKey :: "jsstring option"
  model :: "jsstring option"

record Env =
  ANTHROPIC_API_KEY :: "jsstring option"
  GEMINI_API_KEY :: "jsstring option"
  GOOGLE_API_KEY :: "jsstring option"

text \<open>\<open>a || b\<close> on values that are a string or \<open>undefined\<close>: the empty string is falsy.\<close>

fun orElse :: "jsstring option \<Rightarrow> jsstring option \<Rightarrow> jsstring option" where
  "orElse (Some (c # cs)) b = Some (c # cs)"
| "orElse a b = b"

fun truthyStr :: "jsstring option \<Rightarrow> bool" where
  "truthyStr (Some (c # cs)) = True"
| "truthyStr a = False"

definition getProvider :: "Options \<Rightarrow> Env \<Rightarrow> provider option \<times> jsstring option" where
  "getProvider options env =
     (let anthropicKey = orElse (apiKey options) (ANTHROPIC_API_KEY env);
          geminiKey = orElse (GEMINI_API_KEY env) (GOOGLE_API_KEY env)
      in if truthyStr anthropicKey then (Some Claude, anthropicKey)
         else if truthyStr geminiKey then (Some Gemini, geminiKey)
         else (None, None))"

text \<open>
  One call of the provider either returns the text of the reply or throws. The state, the
  user input, the move of the bot and the \<open>model\<close> option only go into the prompt and the
  model name that are handed to the provider; whatever they are, the outcomes of the
  successive calls of a round are some function of the attempt number, and that function
  is the parameter \<open>api\<close>. Every call is recorded, and every call of \<open>sleep\<close> with the
  delay it is given; the lines written to the console are left out.
\<close>

datatype outcome = Reply jsstring | Throws thrown

datatype event = Call provider nat | Sleep jsnum

record JudgeOutput =
  result :: JudgeResult
  raw :: "jsstring option"

definition noKeyOutput :: JudgeOutput where
  "noKeyOutput =
     \<lparr>result = \<lparr>intent = \<lparr>status = js ''INVALID'', move = None,
          reason = js ''No API key. Set GEMINI_API_KEY or ANTHROPIC_API_KEY in .env.''\<rparr>,
        round_winner = None,
        response = js ''Cannot run AI Judge: set either GEMINI_API_KEY or ANTHROPIC_API_KEY in .env.''\<rparr>,
      raw = None\<rparr>"

definition noContentOutput :: JudgeOutput where
  "noContentOutput =
     \<lparr>result = \<lparr>intent = \<lparr>status = js ''UNCLEAR'', move = None,
          reason = js ''Model returned no content.''\<rparr>,
        round_winner = None,
        response = js ''No response from the Judge. Try again.''\<rparr>,
      raw = None\<rparr>"

definition errorOutput :: "jsstring \<Rightarrow> JudgeOutput" where
  "errorOutput short =
     \<lparr>result = \<lparr>intent = \<lparr>status = js ''INVALID'', move = None, reason = short\<rparr>,
        round_winner = None,
        response = js ''Judge error: '' @ short\<rparr>,
      raw = None\<rparr>"

text \<open>
  The \<open>for\<close> loop of \<open>judgeRound\<close> from attempt \<open>attempt\<close> on, and what follows it.
  \<open>callGemini\<close> and \<open>callClaude\<close> trim the reply.
\<close>

function judgeLoop ::
  "(jsstring \<Rightarrow> jsstring) \<Rightarrow> (jsstring \<Rightarrow> jsnum) \<Rightarrow> (jsnum \<Rightarrow> jsstring)
   \<Rightarrow> (nat \<Rightarrow> outcome) \<Rightarrow> provider
   \<Rightarrow> nat \<Rightarrow> thrown option \<Rightarrow> event list \<Rightarrow> JudgeOutput \<times> event list" where
  "judgeLoop numToString ceilMs secText api prov attempt lastErr trace =
     (if attempt \<le> MAX_RETRIES then
        (case api attempt of
           Reply t \<Rightarrow>
             (let text = trim t in
              if text = [] then (noContentOutput, trace @ [Call prov attempt])
              else (\<lparr>result = parseStructuredOutput numToString text, raw = Some text\<rparr>,
                    trace @ [Call prov attempt]))
         | Throws err \<Rightarrow>
             (if attempt < MAX_RETRIES \<and> isQuotaError (Some err) then
                judgeLoop numToString ceilMs secText api prov (attempt + 1) (Some err)
                  (trace @ [Call prov attempt, Sleep (parseRetryDelayMs ceilMs (Some err))])
              else (errorOutput (shortError ceilMs secText (Some err) prov),
                    trace @ [Call prov attempt])))
      else (errorOutput (shortError ceilMs secText lastErr prov), trace))"
  by pat_completeness auto
termination
  by (relation "measure (\<lambda>(numToString, ceilMs, secText, api, prov, attempt, lastErr, trace).
                  MAX_RETRIES + 1 - attempt)") auto

declare judgeLoop.simps [simp del]

definition judgeRound ::
  "(jsstring \<Rightarrow> jsstring) \<Rightarrow> (jsstring \<Rightarrow> jsnum) \<Rightarrow> (jsnum \<Rightarrow> jsstring) \<Rightarrow> Env
   \<Rightarrow> (nat \<Rightarrow> outcome)
   \<Rightarrow> RoundState \<Rightarrow> jsstring \<Rightarrow> jsstring \<Rightarrow> Options \<Rightarrow> JudgeOutput \<times> event list" where
  "judgeRound numToString ceilMs secText env api state userInput botMove options =
     (case getProvider options env of
        (Some prov, Some key) \<Rightarrow>
          (if key = [] then (noKeyOutput, [])
           else judgeLoop numToString ceilMs secText api prov 0 None [])
      | _ \<Rightarrow> (noKeyOutput, []))"


definition calls :: "event list \<Rightarrow> nat" where
  "calls trace = length (filter (\<lambda>e. case e of Call p k \<Rightarrow> True | Sleep d \<Rightarrow> False) trace)"


section \<open>Spelling normalisation (normalize-input.js)\<close>

definition CANONICAL :: "jsstring list" where
  "CANONICAL = [js ''rock'', js ''paper'', js ''scissors'', js ''bomb'']"

definition TYPO_MAP :: "(jsstring \<times> jsstring) list" where
  "TYPO_MAP =
     [(js ''scissor'', js ''scissors''), (js ''scisors'', js ''scissors''),
      (js ''scisor'', js ''scissors''), (js ''sissors'', js ''scissors''),
      (js ''sissor'', js ''scissors''),
      (js ''roc'', js ''rock''), (js ''rok'', js ''rock''), (js ''rck'', js ''rock''),
      (js ''papper'', js ''paper''), (js ''pape'', js ''paper''), (js ''papr'', js ''paper''),
      (js ''paer'', js ''paper''),
      (js ''bom'', js ''bomb''), (js ''bmb'', js ''bomb''), (js ''bome'', js ''bomb'')]"

text \<open>
  \<open>TYPO_MAP\<close> is an object literal, so \<open>TYPO_MAP[key]\<close> also finds what every object
  inherits from \<open>Object.prototype\<close>. These members are functions, and \<open>__proto__\<close> is the
  prototype object itself: all of them truthy, none of them a string.
\<close>

definition objectPrototypeNames :: "jsstring list" where
  "objectPrototypeNames =
     [js ''constructor'', js ''__defineGetter__'', js ''__defineSetter__'',
      js ''hasOwnProperty'', js ''__lookupGetter__'', js ''__lookupSetter__'',
      js ''isPrototypeOf'', js ''propertyIsEnumerable'', js ''toString'', js ''valueOf'',
      js ''__proto__'', js ''toLocaleString'']"

text \<open>What a function of this module can return: a string, or a member of \<open>Object.prototype\<close>.\<close>

datatype jsret = RStr jsstring | RProto jsstring

definition typoLookup :: "jsstring \<Rightarrow> jsret option" where
  "typoLookup key =
     (case map_of TYPO_MAP key of
        Some v \<Rightarrow> Some (RStr v)
      | None \<Rightarrow> if key \<in> set objectPrototypeNames then Some (RProto key) else None)"

text \<open>
  \<open>toLowerCase\<close>. The program only compares its result with ASCII keys and returns it
  when it is one of them. The code units that lower-case to an ASCII letter are the ASCII
  capitals and the Kelvin sign U+212A; the Latin-1 capitals are mapped as well, and the
  rest of the Unicode table, which never yields an all-ASCII string, is left out.
\<close>

definition lowerUnit :: "nat \<Rightarrow> nat" where
  "lowerUnit c =
     (if 65 \<le> c \<and> c \<le> 90 then c + 32
      else if c = 8490 then 107
      else if 192 \<le> c \<and> c \<le> 222 \<and> c \<noteq> 215 then c + 32
      else c)"

definition toLowerCase :: "jsstring \<Rightarrow> jsstring" where
  "toLowerCase s = map lowerUnit s"

definition normalizeExact :: "jsstring \<Rightarrow> jsret" where
  "normalizeExact input =
     (let key = toLowerCase (trim input) in
      if key = [] then RStr input
      else (case typoLookup key of
              Some v \<Rightarrow> v
            | None \<Rightarrow> if key \<in> set CANONICAL then RStr key else RStr input))"

text \<open>\<open>\w\<close> without the flags \<open>u\<close> and \<open>i\<close>: ASCII letters, digits and the underscore.\<close>

definition isWordChar :: "nat \<Rightarrow> bool" where
  "isWordChar c = ((48 \<le> c \<and> c \<le> 57) \<or> (65 \<le> c \<and> c \<le> 90) \<or> c = 95 \<or> (97 \<le> c \<and> c \<le> 122))"

text \<open>
  \<open>text.split(/\b/)\<close>: the string is cut wherever a word character meets another code
  unit, never at its ends; the empty string gives one empty piece.
\<close>

fun splitWordBoundary :: "jsstring \<Rightarrow> jsstring list" where
  "splitWordBoundary [] = [[]]"
| "splitWordBoundary [c] = [[c]]"
| "splitWordBoundary (c # d # cs) =
     (if isWordChar c = isWordChar d then
        (case splitWordBoundary (d # cs) of
           [] \<Rightarrow> [[c]]
         | p # ps \<Rightarrow> (c # p) # ps)
      else [c] # splitWordBoundary (d # cs))"

text \<open>
  \<open>join('')\<close> turns every piece into a string. A builtin function prints as
  \<open>function name() { [native code] }\<close> (the constructor is the function \<open>Object\<close>), the
  prototype object as \<open>[object Object]\<close>.
\<close>

fun retText :: "jsret \<Rightarrow> jsstring" where
  "retText (RStr s) = s"
| "retText (RProto name) =
     (if name = js ''__proto__'' then js ''[object Object]''
      else js ''function '' @ (if name = js ''constructor'' then js ''Object'' else name)
           @ js ''() { [native code] }'')"

definition normalizeWords :: "jsstring \<Rightarrow> jsstring" where
  "normalizeWords text =
     concat (map (\<lambda>w. case typoLookup (toLowerCase w) of Some v \<Rightarrow> retText v | None \<Rightarrow> w)
                 (splitWordBoundary text))"

text \<open>\<open>text.split(/\s+/)\<close>: every run of white space separates two pieces.\<close>

function splitWhitespace :: "jsstring \<Rightarrow> jsstring \<Rightarrow> jsstring list" where
  "splitWhitespace cur [] = [cur]"
| "splitWhitespace cur (c # cs) =
     (if isWhiteSpace c then cur # splitWhitespace [] (dropWhile isWhiteSpace cs)
      else splitWhitespace (cur @ [c]) cs)"
  by pat_completeness auto
termination
  by (relation "measure (\<lambda>(cur, s). length s)")
     (auto simp: less_Suc_eq_le length_dropWhile_le)

definition normalizeMoveInput :: "jsstring \<Rightarrow> jsret" where
  "normalizeMoveInput rawInput =
     (let trimmed = trim rawInput in
      if trimmed = [] then RStr trimmed
      else if length (splitWhitespace [] trimmed) = 1 then normalizeExact trimmed
      else RStr (normalizeWords trimmed))"

text \<open>
  \<open>normalizeMoveInput\<close> applied to what it returned: a value that is not a string has no
  \<open>trim\<close>, and the call throws a TypeError.
\<close>

fun normalizeMoveInputAgain :: "jsret \<Rightarrow> jserror + jsret" where
  "normalizeMoveInputAgain (RStr s) = Inr (normalizeMoveInput s)"
| "normalizeMoveInputAgain (RProto name) = Inl TypeError"

section \<open>The invariant and the output shape of a result\<close>


definition validEnums :: "JudgeResult \<Rightarrow> bool" where
  "validEnums r =
     (status (intent r) \<in> {js ''VALID'', js ''INVALID'', js ''UNCLEAR''}
      \<and> move (intent r) \<in> {None, Some (js ''rock''), Some (js ''paper''),
                            Some (js ''scissors''), Some (js ''bomb'')}
      \<and> round_winner r \<in> {None, Some (js ''user''), Some (js ''bot''), Some (js ''draw'')})"

text \<open>
  The text of a result in the output shape that \<open>OUTPUT_SCHEMA\<close> of rules-and-prompt.js
  asks the model for, as \<open>JSON.stringify\<close> writes it: a string in double quotes with the
  quote, the backslash and the control characters escaped, and a surrogate that is not
  part of a pair written as a \<open>\u\<close> escape.
\<close>

definition hexDigit :: "nat \<Rightarrow> nat" where
  "hexDigit d = (if d < 10 then 48 + d else 87 + d)"

definition unicodeEscape :: "nat \<Rightarrow> jsstring" where
  "unicodeEscape c =
     [92, 117, hexDigit (c div 4096), hexDigit (c div 256 mod 16),
      hexDigit (c div 16 mod 16), hexDigit (c mod 16)]"

definition quoteUnit :: "nat \<Rightarrow> jsstring" where
  "quoteUnit c =
     (if c = 8 then [92, 98] else if c = 9 then [92, 116] else if c = 10 then [92, 110]
      else if c = 12 then [92, 102] else if c = 13 then [92, 114]
      else if c = 34 then [92, 34] else if c = 92 then [92, 92]
      else if c < 32 then unicodeEscape c
      else [c])"

definition isLeadSurrogate :: "nat \<Rightarrow> bool" where
  "isLeadSurrogate c = (55296 \<le> c \<and> c \<le> 56319)"

definition isTrailSurrogate :: "nat \<Rightarrow> bool" where
  "isTrailSurrogate c = (56320 \<le> c \<and> c \<le> 57343)"

fun quoteBody :: "jsstring \<Rightarrow> jsstring" where
  "quoteBody [] = []"
| "quoteBody [c] =
     (if isLeadSurrogate c \<or> isTrailSurrogate c then unicodeEscape c else quoteUnit c)"
| "quoteBody (c # d # cs) =
     (if isLeadSurrogate c \<and> isTrailSurrogate d then c # d # quoteBody cs
      else if isLeadSurrogate c \<or> isTrailSurrogate c then unicodeEscape c @ quoteBody (d # cs)
      else quoteUnit c @ quoteBody (d # cs))"

definition quoteJSON :: "jsstring \<Rightarrow> jsstring" where
  "quoteJSON s = [34] @ quoteBody s @ [34]"

fun quoteOrNull :: "jsstring option \<Rightarrow> jsstring" where
  "quoteOrNull None = js ''null''"
| "quoteOrNull (Some s) = quoteJSON s"

fun jsonOrNull :: "jsstring option \<Rightarrow> jsval" where
  "jsonOrNull None = JNull"
| "jsonOrNull (Some s) = JStr s"

definition serialize :: "JudgeResult \<Rightarrow> jsstring" where
  "serialize r =
     [123] @ quoteJSON (js ''intent'') @ [58, 123]
       @ quoteJSON (js ''status'') @ [58] @ quoteJSON (status (intent r)) @ [44]
       @ quoteJSON (js ''move'') @ [58] @ quoteOrNull (move (intent r)) @ [44]
       @ quoteJSON (js ''reason'') @ [58] @ quoteJSON (reason (intent r)) @ [125, 44]
       @ quoteJSON (js ''round_winner'') @ [58] @ quoteOrNull (round_winner r) @ [44]
       @ quoteJSON (js ''response'') @ [58] @ quoteJSON (response r) @ [125]"


section \<open>Properties of the round state tracker\<close>

lemma js_user_neq_bot: "js ''user'' \<noteq> js ''bot''"
  by (simp add: js_def)

lemma bombUsed_applyRoundResult:
  "bombUsed (applyRoundResult s r) = (move (intent r) = Some (js ''bomb'') \<or> bombUsed s)"
  by (simp add: applyRoundResult_def Let_def)

lemma bombUsed_foldl:
  "bombUsed s \<Longrightarrow> bombUsed (foldl applyRoundResult s rs)"
  by (induction rs arbitrary: s) (simp_all add: bombUsed_applyRoundResult)

text \<open>
  C1, as claimed: for every state \<open>s\<close> and every result \<open>r\<close>, \<open>applyRoundResult s r\<close> has
  the round of \<open>s\<close> plus one and, for the winner \<open>"user"\<close>, the user score of \<open>s\<close> plus one.
  It fails where the doubles run out of whole numbers: at round and user score \<open>2^53\<close> the
  sums are rounded back, and the new state has the same round and the same user score.
\<close>

theorem applyRoundResult_round_counterexample:
  "round_num (applyRoundResult
      \<lparr>round_num = 9007199254740992, userScore = 9007199254740992, botScore = 0,
       bombUsed = False\<rparr>
      \<lparr>intent = \<lparr>status = js ''VALID'', move = Some (js ''rock''), reason = []\<rparr>,
       round_winner = Some (js ''user''), response = []\<rparr>) = 9007199254740992
   \<and> userScore (applyRoundResult
      \<lparr>round_num = 9007199254740992, userScore = 9007199254740992, botScore = 0,
       bombUsed = False\<rparr>
      \<lparr>intent = \<lparr>status = js ''VALID'', move = Some (js ''rock''), reason = []\<rparr>,
       round_winner = Some (js ''user''), response = []\<rparr>) = 9007199254740992"
  by (simp add: applyRoundResult_def plusOne_def Let_def)

text \<open>
  C1, amended. For every state \<open>s\<close> whose round, user score and bot score are below \<open>2^53\<close>
  (as they are in every state that a game reaches from \<open>createState\<close>) and every result
  \<open>r\<close>, \<open>applyRoundResult s r\<close> has the round of \<open>s\<close> plus one; its user score is that of
  \<open>s\<close> plus one when the round winner is \<open>"user"\<close> and that of \<open>s\<close> otherwise; its bot score
  is that of \<open>s\<close> plus one when the round winner is \<open>"bot"\<close> and that of \<open>s\<close> otherwise; with
  a \<open>null\<close> winner both scores are unchanged.
\<close>

theorem applyRoundResult_round_scores:
  assumes "round_num s < 9007199254740992" and "userScore s < 9007199254740992"
    and "botScore s < 9007199254740992"
  shows "round_num (applyRoundResult s r) = round_num s + 1
   \<and> userScore (applyRoundResult s r)
       = (if round_winner r = Some (js ''user'') then userScore s + 1 else userScore s)
   \<and> botScore (applyRoundResult s r)
       = (if round_winner r = Some (js ''bot'') then botScore s + 1 else botScore s)
   \<and> (round_winner r = None \<longrightarrow>
        userScore (applyRoundResult s r) = userScore s
        \<and> botScore (applyRoundResult s r) = botScore s)"
  using assms by (simp add: applyRoundResult_def plusOne_def Let_def)

theorem applyRoundResult_round_scores_witness:
  "round_num \<lparr>round_num = 2, userScore = 1, botScore = 0, bombUsed = False\<rparr> < 9007199254740992
   \<and> userScore \<lparr>round_num = 2, userScore = 1, botScore = 0, bombUsed = False\<rparr> < 9007199254740992
   \<and> botScore \<lparr>round_num = 2, userScore = 1, botScore = 0, bombUsed = False\<rparr> < 9007199254740992
   \<and> applyRoundResult \<lparr>round_num = 2, userScore = 1, botScore = 0, bombUsed = False\<rparr>
       \<lparr>intent = \<lparr>status = js ''VALID'', move = Some (js ''rock''), reason = []\<rparr>,
        round_winner = Some (js ''user''), response = []\<rparr>
     = \<lparr>round_num = 3, userScore = 2, botScore = 0, bombUsed = False\<rparr>
   \<and> applyRoundResult \<lparr>round_num = 2, userScore = 1, botScore = 0, bombUsed = False\<rparr>
       \<lparr>intent = \<lparr>status = js ''VALID'', move = Some (js ''paper''), reason = []\<rparr>,
        round_winner = Some (js ''bot''), response = []\<rparr>
     = \<lparr>round_num = 3, userScore = 1, botScore = 1, bombUsed = False\<rparr>
   \<and> round_winner \<lparr>intent = \<lparr>status = js ''UNCLEAR'', move = None, reason = []\<rparr>,
        round_winner = None, response = []\<rparr> = None
   \<and> applyRoundResult \<lparr>round_num = 2, userScore = 1, botScore = 0, bombUsed = False\<rparr>
       \<lparr>intent = \<lparr>status = js ''UNCLEAR'', move = None, reason = []\<rparr>,
        round_winner = None, response = []\<rparr>
     = \<lparr>round_num = 3, userScore = 1, botScore = 0, bombUsed = False\<rparr>"
proof -
  let ?s = "\<lparr>round_num = 2, userScore = 1, botScore = 0, bombUsed = False\<rparr>"
  have b: "round_num ?s < 9007199254740992" "userScore ?s < 9007199254740992"
    "botScore ?s < 9007199254740992"
    by simp_all
  have m: "bombUsed (applyRoundResult ?s r) = bombUsed ?s"
    if "move (intent r) \<noteq> Some (js ''bomb'')" for r
    using that by (simp add: applyRoundResult_def Let_def)
  have n: "js ''rock'' \<noteq> js ''bomb''" "js ''paper'' \<noteq> js ''bomb''" "js ''user'' \<noteq> js ''bot''"
    by (simp_all add: js_def)
  show ?thesis
    using b n
      applyRoundResult_round_scores [OF b, of
        "\<lparr>intent = \<lparr>status = js ''VALID'', move = Some (js ''rock''), reason = []\<rparr>,
          round_winner = Some (js ''user''), response = []\<rparr>"]
      applyRoundResult_round_scores [OF b, of
        "\<lparr>intent = \<lparr>status = js ''VALID'', move = Some (js ''paper''), reason = []\<rparr>,
          round_winner = Some (js ''bot''), response = []\<rparr>"]
      applyRoundResult_round_scores [OF b, of
        "\<lparr>intent = \<lparr>status = js ''UNCLEAR'', move = None, reason = []\<rparr>,
          round_winner = None, response = []\<rparr>"]
      m [of "\<lparr>intent = \<lparr>status = js ''VALID'', move = Some (js ''rock''), reason = []\<rparr>,
          round_winner = Some (js ''user''), response = []\<rparr>"]
      m [of "\<lparr>intent = \<lparr>status = js ''VALID'', move = Some (js ''paper''), reason = []\<rparr>,
          round_winner = Some (js ''bot''), response = []\<rparr>"]
      m [of "\<lparr>intent = \<lparr>status = js ''UNCLEAR'', move = None, reason = []\<rparr>,
          round_winner = None, response = []\<rparr>"]
    by (simp add: RoundState.equality)
qed

text \<open>
  C2. For every state \<open>s\<close> and result \<open>r\<close>, \<open>bombUsed\<close> of \<open>applyRoundResult s r\<close> is true
  exactly when the judged move is \<open>"bomb"\<close> or \<open>bombUsed\<close> of \<open>s\<close> was already true; and
  once true it stays true under every further sequence of \<open>applyRoundResult\<close>.
\<close>

theorem applyRoundResult_bombUsed:
  "bombUsed (applyRoundResult s r) = (move (intent r) = Some (js ''bomb'') \<or> bombUsed s)
   \<and> (bombUsed s \<longrightarrow> bombUsed (foldl applyRoundResult s rs))"
  by (simp add: bombUsed_applyRoundResult bombUsed_foldl)

theorem applyRoundResult_bombUsed_witness:
  "bombUsed (createState\<lparr>bombUsed := True\<rparr>)
   \<and> bombUsed (foldl applyRoundResult (createState\<lparr>bombUsed := True\<rparr>)
     [\<lparr>intent = \<lparr>status = js ''INVALID'', move = None, reason = []\<rparr>,
       round_winner = None, response = []\<rparr>,
      \<lparr>intent = \<lparr>status = js ''VALID'', move = Some (js ''bomb''), reason = []\<rparr>,
       round_winner = Some (js ''user''), response = []\<rparr>])"
  using applyRoundResult_bombUsed [of "createState\<lparr>bombUsed := True\<rparr>"
     "\<lparr>intent = \<lparr>status = js ''INVALID'', move = None, reason = []\<rparr>,
       round_winner = None, response = []\<rparr>"
     "[\<lparr>intent = \<lparr>status = js ''INVALID'', move = None, reason = []\<rparr>,
       round_winner = None, response = []\<rparr>,
      \<lparr>intent = \<lparr>status = js ''VALID'', move = Some (js ''bomb''), reason = []\<rparr>,
       round_winner = Some (js ''user''), response = []\<rparr>]"]
  by simp

section \<open>Properties of the result parser\<close>

lemmas json_eval = js_def isJsonWs_def startValue_def isDigit_def isExpMark_def hexVal_def
  escapeVal_def JSON_parse_def

lemmas fence_eval = stripFence_def trim_def codeBlock_def isWhiteSpace_def

lemmas parse_eval = parseStructuredOutput_def parseBody_def parseIntent_def stringOrEmpty_def

lemma includesOrNull_mem: "includesOrNull allowed v = Some x \<Longrightarrow> x \<in> set allowed"
  by (cases v) (auto split: if_splits)

lemma parseIntent_enums:
  assumes "parseIntent numToString i = Inr it"
  shows "status it \<in> {js ''VALID'', js ''INVALID'', js ''UNCLEAR''}"
    and "move it = None
         \<or> (\<exists>m. move it = Some m \<and> m \<in> set [js ''rock'', js ''paper'', js ''scissors'', js ''bomb''])"
proof -
  show "status it \<in> {js ''VALID'', js ''INVALID'', js ''UNCLEAR''}"
    using assms
    by (auto simp: parseIntent_def split: if_splits sum.splits option.splits
             dest!: includesOrNull_mem)
  show "move it = None
        \<or> (\<exists>m. move it = Some m \<and> m \<in> set [js ''rock'', js ''paper'', js ''scissors'', js ''bomb''])"
    using assms
    by (cases "move it")
       (auto simp: parseIntent_def split: if_splits sum.splits dest!: includesOrNull_mem)
qed

lemma parseBody_enums:
  assumes "parseBody numToString s = Inr r"
  shows "validEnums r"
proof -
  from assms obtain it w where
    it: "parseIntent numToString it = Inr (intent r)"
    and w: "round_winner r = includesOrNull [js ''user'', js ''bot'', js ''draw''] w"
    by (auto simp: parseBody_def split: option.splits sum.splits)
  have "round_winner r \<in> {None, Some (js ''user''), Some (js ''bot''), Some (js ''draw'')}"
  proof (cases "round_winner r")
    case None
    then show ?thesis by simp
  next
    case (Some x)
    with w have "x \<in> set [js ''user'', js ''bot'', js ''draw'']"
      by (metis includesOrNull_mem)
    with Some show ?thesis by auto
  qed
  with parseIntent_enums [OF it] show ?thesis
    by (auto simp: validEnums_def)
qed

lemma notJsonResult_enums: "validEnums (notJsonResult text)"
  by (simp add: validEnums_def notJsonResult_def)

lemma parseStructuredOutput_enums: "validEnums (parseStructuredOutput numToString text)"
  by (auto simp: parseStructuredOutput_def parseBody_enums notJsonResult_enums split: sum.splits)

text \<open>
  C3. The result parser is total: the \<open>catch\<close> turns every exception of the \<open>try\<close> into a
  result, so for every input string \<open>parseStructuredOutput\<close> returns a result; its status
  is one of VALID, INVALID, UNCLEAR, its move one of the four moves or \<open>null\<close>, its round
  winner one of user, bot, draw or \<open>null\<close>, and its reason and response are strings.
\<close>

theorem parseStructuredOutput_total:
  "status (intent (parseStructuredOutput numToString text))
       \<in> {js ''VALID'', js ''INVALID'', js ''UNCLEAR''}
   \<and> move (intent (parseStructuredOutput numToString text))
       \<in> {None, Some (js ''rock''), Some (js ''paper''), Some (js ''scissors''), Some (js ''bomb'')}
   \<and> round_winner (parseStructuredOutput numToString text)
       \<in> {None, Some (js ''user''), Some (js ''bot''), Some (js ''draw'')}"
  using parseStructuredOutput_enums [of numToString "text"]
  by (simp add: validEnums_def)

text \<open>
  The kinds of input that the claim names: the empty string, text that is not JSON, JSON
  without the fields, JSON with values outside the enumerations, and JSON in a fenced
  code block.
\<close>

lemma parseStructuredOutput_examples:
  "parseStructuredOutput id [] = notJsonResult []"
  "parseStructuredOutput id (js ''Sure! You win.'') = notJsonResult (js ''Sure! You win.'')"
  "parseStructuredOutput id (js ''{}'')
   = \<lparr>intent = \<lparr>status = js ''UNCLEAR'', move = None, reason = js ''Missing intent.''\<rparr>,
      round_winner = None, response = []\<rparr>"
  "parseStructuredOutput id
     (js ''{\"intent\":{\"status\":\"MAYBE\",\"move\":\"lizard\"},\"round_winner\":\"nobody\",\"response\":7}'')
   = \<lparr>intent = \<lparr>status = js ''UNCLEAR'', move = None, reason = []\<rparr>,
      round_winner = None, response = js ''7''\<rparr>"
  by (simp_all add: parse_eval json_eval fence_eval)

lemma stripFence_example:
  "stripFence (js '' ```json {\"intent\":{\"status\":\"VALID\",\"move\":\"bomb\",\"reason\":\"ok\"},\"round_winner\":\"draw\",\"response\":\"r\"} ``` '')
   = js ''{\"intent\":{\"status\":\"VALID\",\"move\":\"bomb\",\"reason\":\"ok\"},\"round_winner\":\"draw\",\"response\":\"r\"}''"
  by (simp add: fence_eval js_def)

lemma parseStructuredOutput_fenced_example:
  "parseStructuredOutput id
     (js '' ```json {\"intent\":{\"status\":\"VALID\",\"move\":\"bomb\",\"reason\":\"ok\"},\"round_winner\":\"draw\",\"response\":\"r\"} ``` '')
   = \<lparr>intent = \<lparr>status = js ''VALID'', move = Some (js ''bomb''), reason = js ''ok''\<rparr>,
      round_winner = Some (js ''draw''), response = js ''r''\<rparr>"
  unfolding parseStructuredOutput_def stripFence_example
  by (simp add: parseBody_def parseIntent_def stringOrEmpty_def json_eval)




lemma parse_not_json_at_all:
  "JSON_parse (stripFence (js ''not json at all'')) = None"
  by (simp add: json_eval fence_eval)




text \<open>
  C5. For every input string whose content, after the optional fence is stripped, fails
  to parse as JSON, \<open>parseStructuredOutput\<close> returns exactly: status UNCLEAR, move \<open>null\<close>,
  reason \<open>Response was not valid JSON.\<close>, round winner \<open>null\<close>, and as response the first
  500 code units of the raw text.
\<close>

theorem parseStructuredOutput_not_json:
  "JSON_parse (stripFence text) = None \<Longrightarrow>
   parseStructuredOutput numToString text =
     \<lparr>intent = \<lparr>status = js ''UNCLEAR'', move = None,
                 reason = js ''Response was not valid JSON.''\<rparr>,
      round_winner = None,
      response = take 500 text\<rparr>"
  by (simp add: parseStructuredOutput_def parseBody_def notJsonResult_def slice0_def)

theorem parseStructuredOutput_not_json_witness:
  "JSON_parse (stripFence (js ''not json at all'')) = None
   \<and> parseStructuredOutput id (js ''not json at all'') =
     \<lparr>intent = \<lparr>status = js ''UNCLEAR'', move = None,
                 reason = js ''Response was not valid JSON.''\<rparr>,
      round_winner = None,
      response = js ''not json at all''\<rparr>"
proof -
  have "take 500 (js ''not json at all'') = js ''not json at all''"
    by (simp add: js_def)
  with parse_not_json_at_all
    parseStructuredOutput_not_json [OF parse_not_json_at_all, of id]
  show ?thesis by simp
qed

section \<open>The parser inverts the output shape\<close>

lemma run_append:
  "run p (xs @ ys) = (case run p xs of None \<Rightarrow> None | Some p' \<Rightarrow> run p' ys)"
  by (induction xs arbitrary: p) (simp_all split: option.splits)

lemma hexVal_hexDigit: "d < 16 \<Longrightarrow> hexVal (hexDigit d) = Some d"
  by (simp add: hexVal_def hexDigit_def)

lemma hex_recompose:
  "4096 * (c div 4096) + 256 * (c div 256 mod 16) + c div 16 mod 16 * 16 + c mod 16 = (c::nat)"
proof -
  have a: "16 * (c div 16) + c mod 16 = c" by simp
  have "c div 256 = c div 16 div 16"
    using div_mult2_eq [of c 16 16] by simp
  then have b: "16 * (c div 256) + c div 16 mod 16 = c div 16" by simp
  have "c div 4096 = c div 256 div 16"
    using div_mult2_eq [of c 256 16] by simp
  then have c: "16 * (c div 4096) + c div 256 mod 16 = c div 256" by simp
  from a b c show ?thesis by linarith
qed

lemma run_unicodeEscape:
  assumes "c < 65536"
  shows "run (MStr k SPlain acc, st) (unicodeEscape c) = Some (MStr k SPlain (acc @ [c]), st)"
proof -
  have d3: "c div 4096 < 16" using assms by simp
  have d2: "c div 256 mod 16 < 16" and d1: "c div 16 mod 16 < 16" and d0: "c mod 16 < 16"
    by simp_all
  show ?thesis
    by (simp add: unicodeEscape_def hexVal_hexDigit [OF d3] hexVal_hexDigit [OF d2]
          hexVal_hexDigit [OF d1] hexVal_hexDigit [OF d0] hex_recompose)
qed

lemma run_quoteUnit:
  "run (MStr k SPlain acc, st) (quoteUnit c) = Some (MStr k SPlain (acc @ [c]), st)"
  by (simp add: quoteUnit_def escapeVal_def run_unicodeEscape)

lemma run_plain:
  "c \<noteq> 34 \<Longrightarrow> c \<noteq> 92 \<Longrightarrow> \<not> c < 32 \<Longrightarrow>
   run (MStr k SPlain acc, st) (c # rest) = run (MStr k SPlain (acc @ [c]), st) rest"
  by simp

lemma surrogate_plain:
  "isLeadSurrogate c \<or> isTrailSurrogate c \<Longrightarrow> c \<noteq> 34 \<and> c \<noteq> 92 \<and> \<not> c < 32 \<and> c < 65536"
  by (auto simp: isLeadSurrogate_def isTrailSurrogate_def)

lemma run_quoteBody:
  "run (MStr k SPlain acc, st) (quoteBody s) = Some (MStr k SPlain (acc @ s), st)"
proof (induction s arbitrary: acc rule: quoteBody.induct)
  case 1
  show ?case by simp
next
  case (2 c)
  show ?case
  proof (cases "isLeadSurrogate c \<or> isTrailSurrogate c")
    case True
    with surrogate_plain [of c] show ?thesis
      by (simp add: run_unicodeEscape del: run.simps)
  next
    case False
    then show ?thesis
      by (simp add: run_quoteUnit del: run.simps)
  qed
next
  case (3 c d cs)
  show ?case
  proof (cases "isLeadSurrogate c \<and> isTrailSurrogate d")
    case True
    then have q: "quoteBody (c # d # cs) = c # d # quoteBody cs"
      by simp
    from True have c: "c \<noteq> 34" "c \<noteq> 92" "\<not> c < 32"
      by (auto simp: isLeadSurrogate_def)
    from True have d: "d \<noteq> 34" "d \<noteq> 92" "\<not> d < 32"
      by (auto simp: isTrailSurrogate_def)
    have "run (MStr k SPlain acc, st) (c # d # quoteBody cs)
          = run (MStr k SPlain (acc @ [c]), st) (d # quoteBody cs)"
      by (rule run_plain [OF c])
    also have "\<dots> = run (MStr k SPlain ((acc @ [c]) @ [d]), st) (quoteBody cs)"
      by (rule run_plain [OF d])
    finally have "run (MStr k SPlain acc, st) (c # d # quoteBody cs)
          = run (MStr k SPlain ((acc @ [c]) @ [d]), st) (quoteBody cs)" .
    with "3.IH"(1) [OF True, of "(acc @ [c]) @ [d]"] q show ?thesis
      by simp
  next
    case pair: False
    show ?thesis
    proof (cases "isLeadSurrogate c \<or> isTrailSurrogate c")
      case True
      with pair have q: "quoteBody (c # d # cs) = unicodeEscape c @ quoteBody (d # cs)"
        by auto
      from True surrogate_plain [of c] have "c < 65536" by simp
      with "3.IH"(2) [OF pair True, of "acc @ [c]"] show ?thesis
        by (simp only: q run_append run_unicodeEscape option.case) simp
    next
      case False
      with pair have q: "quoteBody (c # d # cs) = quoteUnit c @ quoteBody (d # cs)"
        by auto
      from "3.IH"(3) [OF pair False, of "acc @ [c]"] show ?thesis
        by (simp only: q run_append run_quoteUnit option.case) simp
    qed
  qed
qed

lemma run_quoteJSON_value:
  "run (MValue, st) (quoteJSON s @ rest)
   = (case finish (JStr s) st of None \<Rightarrow> None | Some p \<Rightarrow> run p rest)"
  by (simp add: quoteJSON_def isJsonWs_def startValue_def run_append run_quoteBody)

lemma run_quoteJSON_key:
  "run (MObjStart, FObj kvs # st) (quoteJSON s @ rest) = run (MColon, FKey kvs s # st) rest"
  "run (MKey, FObj kvs # st) (quoteJSON s @ rest) = run (MColon, FKey kvs s # st) rest"
  by (simp_all add: quoteJSON_def isJsonWs_def run_append run_quoteBody)

lemma run_null:
  "run (MValue, st) (js ''null'' @ rest)
   = (case finish JNull st of None \<Rightarrow> None | Some p \<Rightarrow> run p rest)"
  by (simp add: js_def isJsonWs_def startValue_def split: option.splits)

lemma run_quoteOrNull:
  "run (MValue, st) (quoteOrNull x @ rest)
   = (case finish (jsonOrNull x) st of None \<Rightarrow> None | Some p \<Rightarrow> run p rest)"
  by (cases x) (simp_all add: run_null run_quoteJSON_value)

lemma JSON_parse_serialize:
  "JSON_parse (serialize r) =
     Some (JObj [(js ''intent'',
                  JObj [(js ''status'', JStr (status (intent r))),
                        (js ''move'', jsonOrNull (move (intent r))),
                        (js ''reason'', JStr (reason (intent r)))]),
                 (js ''round_winner'', jsonOrNull (round_winner r)),
                 (js ''response'', JStr (response r))])"
proof -
  let ?i = "[(js ''status'', JStr (status (intent r))),
             (js ''move'', jsonOrNull (move (intent r))),
             (js ''reason'', JStr (reason (intent r)))]"
  let ?o = "[(js ''intent'', JObj ?i),
             (js ''round_winner'', jsonOrNull (round_winner r)),
             (js ''response'', JStr (response r))]"
  have "run (MValue, []) (serialize r) = Some (MDone (JObj ?o), [])"
    unfolding serialize_def
    by (simp add: run_quoteJSON_key run_quoteJSON_value run_quoteOrNull
          isJsonWs_def startValue_def del: quoteOrNull.simps jsonOrNull.simps)
  then show ?thesis
    by (simp add: JSON_parse_def)
qed

lemma trim_id:
  "\<not> isWhiteSpace a \<Longrightarrow> \<not> isWhiteSpace b \<Longrightarrow> trim (a # xs @ [b]) = a # xs @ [b]"
  by (simp add: trim_def)

lemma serialize_shape:
  "\<exists>xs. serialize r = 123 # xs @ [125]"
  by (simp add: serialize_def)

lemma stripFence_serialize: "stripFence (serialize r) = serialize r"
proof -
  from serialize_shape obtain xs where s: "serialize r = 123 # xs @ [125]" ..
  have t: "trim (serialize r) = serialize r"
    unfolding s by (rule trim_id) (simp_all add: isWhiteSpace_def)
  have "codeBlock (serialize r) = None"
    unfolding s by (simp add: codeBlock_def)
  with t show ?thesis
    by (simp add: stripFence_def)
qed

lemma includesOrNull_jsonOrNull:
  "x = None \<or> (\<exists>m. x = Some m \<and> m \<in> set allowed) \<Longrightarrow> includesOrNull allowed (jsonOrNull x) = x"
  by (cases x) auto

lemma serialize_example:
  "serialize \<lparr>intent = \<lparr>status = js ''VALID'', move = Some (js ''rock''), reason = js ''clear''\<rparr>,
              round_winner = Some (js ''user''), response = js ''...''\<rparr>
   = js ''{\"intent\":{\"status\":\"VALID\",\"move\":\"rock\",\"reason\":\"clear\"},\"round_winner\":\"user\",\"response\":\"...\"}''"
  by (simp add: serialize_def quoteJSON_def quoteUnit_def isLeadSurrogate_def
        isTrailSurrogate_def js_def)

text \<open>
  C6. The result parser round-trips: for every result whose status is VALID, INVALID or
  UNCLEAR, whose move is one of the four moves or \<open>null\<close> and whose round winner is user,
  bot, draw or \<open>null\<close>, with any strings as reason and response, parsing its text in the
  output shape gives back the same result, field by field.
\<close>

theorem parseStructuredOutput_roundtrip:
  assumes "status (intent r) \<in> {js ''VALID'', js ''INVALID'', js ''UNCLEAR''}"
    and "move (intent r) \<in> {None, Some (js ''rock''), Some (js ''paper''),
                              Some (js ''scissors''), Some (js ''bomb'')}"
    and "round_winner r \<in> {None, Some (js ''user''), Some (js ''bot''), Some (js ''draw'')}"
  shows "parseStructuredOutput numToString (serialize r) = r"
proof -
  have st: "includesOrNull [js ''VALID'', js ''INVALID'', js ''UNCLEAR''] (JStr (status (intent r)))
            = Some (status (intent r))"
    using assms(1) by auto
  have mv: "includesOrNull [js ''rock'', js ''paper'', js ''scissors'', js ''bomb'']
              (jsonOrNull (move (intent r))) = move (intent r)"
    using assms(2) by (intro includesOrNull_jsonOrNull) auto
  have rw: "includesOrNull [js ''user'', js ''bot'', js ''draw''] (jsonOrNull (round_winner r))
            = round_winner r"
    using assms(3) by (intro includesOrNull_jsonOrNull) auto
  have keys: "js ''status'' \<noteq> js ''move''" "js ''status'' \<noteq> js ''reason''"
    "js ''move'' \<noteq> js ''reason''" "js ''intent'' \<noteq> js ''round_winner''"
    "js ''intent'' \<noteq> js ''response''" "js ''round_winner'' \<noteq> js ''response''"
    by (simp_all add: js_def)
  have i: "parseIntent numToString
             (JObj [(js ''status'', JStr (status (intent r))),
                    (js ''move'', jsonOrNull (move (intent r))),
                    (js ''reason'', JStr (reason (intent r)))]) = Inr (intent r)"
    using keys by (simp add: parseIntent_def stringOrEmpty_def st mv del: includesOrNull.simps)
  have "parseBody numToString (serialize r) = Inr r"
    using keys
    by (simp add: parseBody_def JSON_parse_serialize i rw stringOrEmpty_def
          del: includesOrNull.simps)
  then show ?thesis
    by (simp add: parseStructuredOutput_def stripFence_serialize)
qed

theorem parseStructuredOutput_roundtrip_witness:
  "status (intent \<lparr>intent = \<lparr>status = js ''VALID'', move = Some (js ''rock''),
                              reason = js ''clear''\<rparr>,
                    round_winner = Some (js ''user''), response = js ''...''\<rparr>)
     \<in> {js ''VALID'', js ''INVALID'', js ''UNCLEAR''}
   \<and> move (intent \<lparr>intent = \<lparr>status = js ''VALID'', move = Some (js ''rock''),
                              reason = js ''clear''\<rparr>,
                    round_winner = Some (js ''user''), response = js ''...''\<rparr>)
     \<in> {None, Some (js ''rock''), Some (js ''paper''), Some (js ''scissors''), Some (js ''bomb'')}
   \<and> round_winner \<lparr>intent = \<lparr>status = js ''VALID'', move = Some (js ''rock''),
                              reason = js ''clear''\<rparr>,
                    round_winner = Some (js ''user''), response = js ''...''\<rparr>
     \<in> {None, Some (js ''user''), Some (js ''bot''), Some (js ''draw'')}
   \<and> parseStructuredOutput id
       (js ''{\"intent\":{\"status\":\"VALID\",\"move\":\"rock\",\"reason\":\"clear\"},\"round_winner\":\"user\",\"response\":\"...\"}'')
     = \<lparr>intent = \<lparr>status = js ''VALID'', move = Some (js ''rock''), reason = js ''clear''\<rparr>,
        round_winner = Some (js ''user''), response = js ''...''\<rparr>"
  using parseStructuredOutput_roundtrip
    [of "\<lparr>intent = \<lparr>status = js ''VALID'', move = Some (js ''rock''), reason = js ''clear''\<rparr>,
          round_winner = Some (js ''user''), response = js ''...''\<rparr>" id]
  by (simp add: serialize_example)

section \<open>Properties of the judge client\<close>

text \<open>
  C7. When no credential is available (no \<open>apiKey\<close> option and no configured key, an empty
  string counting as none), \<open>judgeRound\<close> returns the fixed result with status INVALID,
  move \<open>null\<close>, round winner \<open>null\<close> and the fixed message, and makes no call.
\<close>

theorem judgeRound_no_credential:
  assumes "\<not> truthyStr (apiKey options)" and "\<not> truthyStr (ANTHROPIC_API_KEY env)"
    and "\<not> truthyStr (GEMINI_API_KEY env)" and "\<not> truthyStr (GOOGLE_API_KEY env)"
  shows "judgeRound numToString ceilMs secText env api state userInput botMove options = (noKeyOutput, [])
    \<and> status (intent (result noKeyOutput)) = js ''INVALID''
    \<and> move (intent (result noKeyOutput)) = None
    \<and> round_winner (result noKeyOutput) = None
    \<and> response (result noKeyOutput)
        = js ''Cannot run AI Judge: set either GEMINI_API_KEY or ANTHROPIC_API_KEY in .env.''
    \<and> calls [] = 0"
proof -
  have a: "\<not> truthyStr (orElse (apiKey options) (ANTHROPIC_API_KEY env))"
    using assms(1,2) by (cases "(apiKey options, ANTHROPIC_API_KEY env)" rule: orElse.cases) auto
  have g: "\<not> truthyStr (orElse (GEMINI_API_KEY env) (GOOGLE_API_KEY env))"
    using assms(3,4) by (cases "(GEMINI_API_KEY env, GOOGLE_API_KEY env)" rule: orElse.cases) auto
  from a g have "getProvider options env = (None, None)"
    by (simp add: getProvider_def Let_def)
  then show ?thesis
    by (simp add: judgeRound_def noKeyOutput_def calls_def)
qed

theorem judgeRound_no_credential_witness:
  "\<not> truthyStr (apiKey \<lparr>apiKey = None, model = None\<rparr>)
   \<and> \<not> truthyStr (ANTHROPIC_API_KEY
         \<lparr>ANTHROPIC_API_KEY = None, GEMINI_API_KEY = Some [], GOOGLE_API_KEY = None\<rparr>)
   \<and> \<not> truthyStr (GEMINI_API_KEY
         \<lparr>ANTHROPIC_API_KEY = None, GEMINI_API_KEY = Some [], GOOGLE_API_KEY = None\<rparr>)
   \<and> \<not> truthyStr (GOOGLE_API_KEY
         \<lparr>ANTHROPIC_API_KEY = None, GEMINI_API_KEY = Some [], GOOGLE_API_KEY = None\<rparr>)
   \<and> judgeRound id wholeSecondsMs wholeSecondsText
         \<lparr>ANTHROPIC_API_KEY = None, GEMINI_API_KEY = Some [], GOOGLE_API_KEY = None\<rparr>
         (\<lambda>k. Reply (js ''{}'')) createState (js ''rock'') (js ''paper'')
         \<lparr>apiKey = None, model = None\<rparr> = (noKeyOutput, [])"
  using judgeRound_no_credential [where options = "\<lparr>apiKey = None, model = None\<rparr>"
      and env = "\<lparr>ANTHROPIC_API_KEY = None, GEMINI_API_KEY = Some [], GOOGLE_API_KEY = None\<rparr>"
      and numToString = id and ceilMs = wholeSecondsMs and secText = wholeSecondsText and api = "\<lambda>k. Reply (js ''{}'')"
      and state = createState and userInput = "js ''rock''" and botMove = "js ''paper''"]
  by simp









lemma ciContains_replicate:
  "asciiLower p \<noteq> asciiLower x \<Longrightarrow> \<not> ciContains (p # ps) (replicate n x)"
  by (induction n) simp_all

lemma patterns_xs:
  "\<not> quotaPattern (replicate n 120)" "\<not> notFoundPattern (replicate n 120)"
  "\<not> authPattern (replicate n 120)"
  by (simp_all add: quotaPattern_def notFoundPattern_def authPattern_def js_def
        ciContains_replicate asciiLower_def)

lemma shortError_unmatched:
  "\<not> quotaPattern (errMessage err) \<Longrightarrow> \<not> notFoundPattern (errMessage err) \<Longrightarrow>
   \<not> authPattern (errMessage err) \<Longrightarrow>
   shortError ceilMs secText err prov =
     (if length (errMessage err) > 120 then take 120 (errMessage err) @ ellipsis
      else errMessage err)"
  by (simp add: shortError_def Let_def slice0_def)

text \<open>
  C9, as claimed: the summary of an error that matches none of the patterns is the
  message cut to at most 120 characters. It fails by one: a message of 121 times \<open>x\<close>
  gives a summary of 121 code units, the first 120 and the ellipsis.
\<close>

theorem shortError_length_counterexample:
  "\<not> quotaPattern (replicate 121 120) \<and> \<not> notFoundPattern (replicate 121 120)
   \<and> \<not> authPattern (replicate 121 120)
   \<and> length (shortError wholeSecondsMs wholeSecondsText (Some (Thrown (Some (replicate 121 120)))) Claude) = 121"
  by (simp add: patterns_xs shortError_unmatched ellipsis_def)

text \<open>
  C9, amended. For every provider error that matches none of the rate-limit, not-found
  and authentication patterns, the summary is the message itself when that has at most
  120 code units, and otherwise its first 120 code units followed by the one-character
  ellipsis: at most 121 code units, of which the first 120 are those of the message. This
  summary is the reason of the returned result, and the response is
  \<open>Judge error: \<close> followed by it.
\<close>

theorem shortError_truncates:
  assumes "\<not> quotaPattern (errMessage (Some e))" and "\<not> notFoundPattern (errMessage (Some e))"
    and "\<not> authPattern (errMessage (Some e))"
  shows "shortError ceilMs secText (Some e) prov =
           (if length (errMessage (Some e)) > 120
            then take 120 (errMessage (Some e)) @ ellipsis else errMessage (Some e))
    \<and> length (shortError ceilMs secText (Some e) prov) \<le> 121
    \<and> take 120 (shortError ceilMs secText (Some e) prov) = take 120 (errMessage (Some e))
    \<and> (attempt \<le> MAX_RETRIES \<and> api attempt = Throws e \<longrightarrow>
          result (fst (judgeLoop numToString ceilMs secText api prov attempt lastErr trace)) =
            \<lparr>intent = \<lparr>status = js ''INVALID'', move = None,
                        reason = shortError ceilMs secText (Some e) prov\<rparr>,
             round_winner = None,
             response = js ''Judge error: '' @ shortError ceilMs secText (Some e) prov\<rparr>)"
proof -
  let ?m = "errMessage (Some e)"
  have eq: "shortError ceilMs secText (Some e) prov
            = (if length ?m > 120 then take 120 ?m @ ellipsis else ?m)"
    using assms by (rule shortError_unmatched)
  have len: "length (shortError ceilMs secText (Some e) prov) \<le> 121"
    by (simp add: eq ellipsis_def)
  have pre: "take 120 (shortError ceilMs secText (Some e) prov) = take 120 ?m"
    by (simp add: eq)
  have loop: "attempt \<le> MAX_RETRIES \<and> api attempt = Throws e \<longrightarrow>
          result (fst (judgeLoop numToString ceilMs secText api prov attempt lastErr trace)) =
            \<lparr>intent = \<lparr>status = js ''INVALID'', move = None,
                        reason = shortError ceilMs secText (Some e) prov\<rparr>,
             round_winner = None,
             response = js ''Judge error: '' @ shortError ceilMs secText (Some e) prov\<rparr>"
    using assms(1) by (subst judgeLoop.simps) (simp add: isQuotaError_def errorOutput_def)
  from eq len pre loop show ?thesis by blast
qed

theorem shortError_truncates_witness:
  "\<not> quotaPattern (errMessage (Some (Thrown (Some (replicate 121 120)))))
   \<and> \<not> notFoundPattern (errMessage (Some (Thrown (Some (replicate 121 120)))))
   \<and> \<not> authPattern (errMessage (Some (Thrown (Some (replicate 121 120)))))
   \<and> length (shortError wholeSecondsMs wholeSecondsText (Some (Thrown (Some (replicate 121 120)))) Claude) \<le> 121
   \<and> take 120 (shortError wholeSecondsMs wholeSecondsText (Some (Thrown (Some (replicate 121 120)))) Claude)
       = replicate 120 120
   \<and> reason (intent (result (fst (judgeLoop id wholeSecondsMs wholeSecondsText
         (\<lambda>k. Throws (Thrown (Some (replicate 121 120)))) Claude 0 None []))))
       = replicate 120 120 @ ellipsis"
  using shortError_truncates [where e = "Thrown (Some (replicate 121 120))" and attempt = 0
          and api = "\<lambda>k. Throws (Thrown (Some (replicate 121 120)))"
          and ceilMs = wholeSecondsMs and secText = wholeSecondsText and prov = Claude and numToString = id
          and lastErr = None and trace = "[]"]
  by (simp add: patterns_xs MAX_RETRIES_def ellipsis_def)

section \<open>Properties of the spelling normalisation\<close>

lemmas normalize_eval = normalizeMoveInput_def normalizeExact_def normalizeWords_def
  typoLookup_def TYPO_MAP_def CANONICAL_def objectPrototypeNames_def toLowerCase_def
  lowerUnit_def trim_def isWhiteSpace_def isWordChar_def js_def

lemma dropWhile_rev_trimmed:
  "dropWhile P (rev (dropWhile P (rev (dropWhile P xs))))
   = rev (dropWhile P (rev (dropWhile P xs)))"
proof (cases "dropWhile P xs")
  case Nil
  show ?thesis unfolding Nil by simp
next
  case (Cons a ys)
  then have a: "\<not> P a"
    using hd_dropWhile [of P xs] by auto
  then show ?thesis
    by (simp add: Cons dropWhile_append)
qed

lemma trim_trim: "trim (trim s) = trim s"
  by (simp add: trim_def dropWhile_rev_trimmed)

lemma normalizeMoveInput_blank:
  "trim rawInput = [] \<Longrightarrow> normalizeMoveInput rawInput = RStr []"
  by (simp add: normalizeMoveInput_def)

lemma canonical_not_typo:
  "key \<in> set CANONICAL \<Longrightarrow> typoLookup key = None"
proof -
  assume "key \<in> set CANONICAL"
  then consider "key = js ''rock''" | "key = js ''paper''" | "key = js ''scissors''"
    | "key = js ''bomb''"
    by (auto simp: CANONICAL_def)
  then show ?thesis
    by cases (simp_all add: typoLookup_def TYPO_MAP_def objectPrototypeNames_def js_def)
qed

text \<open>
  For a single word that is a known typo or, in any mix of cases, a canonical move, the
  code does return the canonical move; and white space only gives the empty string.
\<close>

lemma normalizeMoveInput_single_word:
  assumes "trim rawInput \<noteq> []" and "length (splitWhitespace [] (trim rawInput)) = 1"
  shows "map_of TYPO_MAP (toLowerCase (trim rawInput)) = Some v \<Longrightarrow>
           normalizeMoveInput rawInput = RStr v"
    and "toLowerCase (trim rawInput) \<in> set CANONICAL \<Longrightarrow>
           normalizeMoveInput rawInput = RStr (toLowerCase (trim rawInput))"
proof -
  have ne: "toLowerCase (trim rawInput) \<noteq> []"
    using assms(1) by (simp add: toLowerCase_def)
  have ex: "normalizeMoveInput rawInput = normalizeExact (trim rawInput)"
    using assms by (simp add: normalizeMoveInput_def)
  show "map_of TYPO_MAP (toLowerCase (trim rawInput)) = Some v \<Longrightarrow>
           normalizeMoveInput rawInput = RStr v"
    using ne by (simp add: ex normalizeExact_def trim_trim typoLookup_def)
  show "toLowerCase (trim rawInput) \<in> set CANONICAL \<Longrightarrow>
           normalizeMoveInput rawInput = RStr (toLowerCase (trim rawInput))"
    using ne by (simp add: ex normalizeExact_def trim_trim canonical_not_typo)
qed

lemma splitWordBoundary_nonempty: "splitWordBoundary s \<noteq> []"
  by (induction s rule: splitWordBoundary.induct) (auto split: list.splits)

lemma concat_splitWordBoundary: "concat (splitWordBoundary s) = s"
proof (induction s rule: splitWordBoundary.induct)
  case 1
  show ?case by simp
next
  case (2 c)
  show ?case by simp
next
  case (3 c d cs)
  obtain p ps where p: "splitWordBoundary (d # cs) = p # ps"
    using splitWordBoundary_nonempty [of "d # cs"] by (cases "splitWordBoundary (d # cs)") auto
  with "3.IH" show ?case
    by (cases "isWordChar c = isWordChar d") simp_all
qed

text \<open>
  In a phrase none of whose pieces is, in lower case, the name of a member of
  \<open>Object.prototype\<close>, the code does change only the pieces that are known typos: the
  pieces make up the text, and each is kept or replaced by the canonical move.
\<close>

lemma normalizeWords_typos_only:
  assumes "\<forall>w \<in> set (splitWordBoundary t). toLowerCase w \<notin> set objectPrototypeNames"
  shows "normalizeWords t =
           concat (map (\<lambda>w. case map_of TYPO_MAP (toLowerCase w) of Some v \<Rightarrow> v | None \<Rightarrow> w)
                       (splitWordBoundary t))"
proof -
  have "\<And>w. w \<in> set (splitWordBoundary t) \<Longrightarrow>
          (case typoLookup (toLowerCase w) of Some v \<Rightarrow> retText v | None \<Rightarrow> w)
          = (case map_of TYPO_MAP (toLowerCase w) of Some v \<Rightarrow> v | None \<Rightarrow> w)"
    using assms by (auto simp: typoLookup_def split: option.splits)
  then show ?thesis
    by (simp add: normalizeWords_def cong: map_cong)
qed

text \<open>
  C10. The claim: \<open>normalizeMoveInput\<close> is idempotent, gives the canonical move for a
  single word that is a move or a known typo, leaves white space only input trimmed, and in
  several words changes only the words that are known typos. The code fails it where a
  word is the name of a member of \<open>Object.prototype\<close>: for \<open>constructor\<close> it returns that
  member, which is not a string, so that a second application throws; and inside a phrase
  the word is replaced by the text of the function.
\<close>

theorem normalizeMoveInput_prototype_member:
  "normalizeMoveInput (js ''constructor'') = RProto (js ''constructor'')
   \<and> normalizeMoveInputAgain (normalizeMoveInput (js ''constructor'')) = Inl TypeError
   \<and> normalizeMoveInput (js ''I pick constructor'')
       = RStr (js ''I pick function Object() { [native code] }'')"
proof -
  have a: "normalizeMoveInput (js ''constructor'') = RProto (js ''constructor'')"
    by (simp add: normalize_eval)
  have b: "normalizeMoveInput (js ''I pick constructor'')
       = RStr (js ''I pick function Object() { [native code] }'')"
    by (simp add: normalize_eval)
  from a b show ?thesis by simp
qed

end
